theory Spec2Isabelle
  imports Main "HOL-Library.Word" "HOL-Library.Sublist"
begin

section \<open>The standby replication commit hook (cluster/commithook.go)\<close>

subsection \<open>Data model\<close>

text \<open>
  A \<open>hash.Hash\<close> is an array of 20 bytes, compared bytewise; it is modelled as a 160-bit
  word, the zero hash \<open>hash.Hash{}\<close> being \<open>0\<close>.
  A \<open>time.Time\<close> is modelled as the number of nanoseconds since the zero value
  \<open>time.Time{}\<close>; the value of \<open>time.Now()\<close> is an argument of every operation that
  reads the clock.  A Go \<open>error\<close> is modelled by its message, the \<open>nil\<close> error by
  \<open>None\<close>.
\<close>

type_synonym hash = "160 word"
type_synonym time = int
type_synonym chan = nat
type_synonym cancelfn = nat
type_synonym callback = nat
type_synonym dbhandle = nat

definition zeroHash :: hash where
  "zeroHash = 0"

definition zeroTime :: time where
  "zeroTime = 0"

definition second :: int where
  "second = 1000000000"

text \<open>
  Modelled from the spec: the type \<open>Role\<close> and its constants \<open>RolePrimary\<close>,
  \<open>RoleStandby\<close> and \<open>RoleDetectedBrokenConfig\<close> are declared in a file of package
  \<open>cluster\<close> that is not among the sources; the specification gives the role as
  one of Primary, Standby, DetectedBrokenConfig.
\<close>

datatype Role = RolePrimary | RoleStandby | RoleDetectedBrokenConfig

text \<open>
  The fields of \<open>struct commithook\<close> that the operations below read or write.  The
  loggers, the wait group, the source database and the temp directory take no part in
  any decision.  The mutex \<open>mu\<close> is not a field of the model: every operation below is
  one critical section, and the transition system further down says when a critical
  section may start.  Channels, cancel functions, callbacks and database handles are
  references, modelled by identifiers.
\<close>

record commithook =
  remotename :: string
  dbname :: string
  shutdown :: bool
  nextHead :: hash
  lastPushedHead :: hash
  nextPushAttempt :: time
  nextHeadIncomingTime :: time
  lastSuccess :: time
  currentError :: "string option"
  cancelReplicate :: "cancelfn option"
  waitNotify :: "callback option"
  successChs :: "chan list"
  fastFailReplicationWait :: bool
  role :: Role
  destDB :: "dbhandle option"

text \<open>
  The local variables that \<open>attemptReplicate\<close> captures before it releases the mutex.
  \<open>att_final\<close> marks the last attempt that \<open>replicate\<close> makes after its context was
  cancelled.
\<close>

record attempt =
  toPush :: hash
  incomingTime :: time
  att_destDB :: "dbhandle option"
  att_successChs :: "chan list"
  att_final :: bool

text \<open>
  Where the replicate goroutine stands.  \<open>Running\<close>: it holds the mutex, at the head
  of its loop.  \<open>Waiting\<close>: blocked in \<open>cond.Wait()\<close>.  \<open>Woken\<close>: signalled (or not yet
  started), about to take the mutex.  \<open>Pushing\<close>: inside \<open>attemptReplicate\<close> with the
  mutex released.  \<open>FetchFailed\<close>: \<open>destDBF\<close> returned an error and \<open>currentError\<close>
  was written, the mutex not yet retaken.  \<open>Beating\<close>: inside \<open>attemptHeartbeat\<close> with
  the mutex released.  \<open>Stopped\<close>: returned.
\<close>

datatype wstate =
    Running
  | Waiting
  | Woken
  | Pushing attempt
  | FetchFailed attempt
  | Beating
  | Stopped

text \<open>
  The hook together with everything its operations act on: which channels were closed
  and how many were made, which cancel functions were invoked and how many contexts were
  derived, how often \<open>cond.Signal()\<close> was called, which callbacks were invoked, the
  replicate goroutine's position, its local \<open>shouldHeartbeat\<close>, and whether the
  context passed to \<open>run\<close> is done.
\<close>

record sys =
  hook :: commithook
  closedChs :: "chan list"
  madeChs :: nat
  cancelled :: "cancelfn list"
  madeCtxs :: nat
  signals :: nat
  notified :: "callback list"
  worker :: wstate
  shouldHeartbeat :: bool
  ctxDone :: bool

subsection \<open>Primitives of the runtime\<close>

text \<open>
  \<open>cond.Signal()\<close> wakes the goroutine blocked in \<open>cond.Wait()\<close>, if there is one;
  otherwise the signal is lost.
\<close>

definition cond_Signal :: "sys \<Rightarrow> sys" where
  "cond_Signal s =
     s\<lparr>signals := Suc (signals s),
       worker := (if worker s = Waiting then Woken else worker s)\<rparr>"

text \<open>
  \<open>for _, ch := range chs { close(ch) }\<close>.  Every \<open>close\<close> is recorded, in order;
  closing a channel again would panic, and would show as a second occurrence in
  \<open>closedChs\<close> (lemma \<open>no_double_close\<close>: there is none).
\<close>

definition close_all :: "chan list \<Rightarrow> sys \<Rightarrow> sys" where
  "close_all chs s = s\<lparr>closedChs := closedChs s @ chs\<rparr>"

text \<open>
  The deferred function of \<open>attemptReplicate\<close> and \<open>attemptHeartbeat\<close>:
  \<open>if h.cancelReplicate != nil { h.cancelReplicate() }; h.cancelReplicate = nil\<close>
\<close>

definition cancel_deferred :: "sys \<Rightarrow> sys" where
  "cancel_deferred s =
     (case cancelReplicate (hook s) of
        None \<Rightarrow> s
      | Some c \<Rightarrow> s\<lparr>cancelled := cancelled s @ [c],
                    hook := (hook s)\<lparr>cancelReplicate := None\<rparr>\<rparr>)"

subsection \<open>Predicates called with the mutex held\<close>

definition isCaughtUp :: "commithook \<Rightarrow> bool" where
  "isCaughtUp h =
     (if role h \<noteq> RolePrimary then True
      else if nextHead h = zeroHash then False
      else nextHead h = lastPushedHead h)"

definition shouldReplicate :: "time \<Rightarrow> commithook \<Rightarrow> bool" where
  "shouldReplicate now h =
     (if isCaughtUp h then False
      else (nextPushAttempt h = zeroTime \<or> now > nextPushAttempt h))"

definition primaryNeedsInit :: "commithook \<Rightarrow> bool" where
  "primaryNeedsInit h = (role h = RolePrimary \<and> nextHead h = zeroHash)"

subsection \<open>Operations called by other goroutines\<close>

definition errDetectedBrokenConfigStr :: string where
  "errDetectedBrokenConfigStr = ''error: more than one server was configured as primary in the same epoch. this server has stopped accepting writes. choose a primary in the cluster and call dolt_assume_cluster_role() on servers in the cluster to start replication at a higher epoch''"

definition setRole :: "Role \<Rightarrow> sys \<Rightarrow> sys" where
  "setRole r s =
     (let h1 = (hook s)\<lparr>currentError := None, nextHead := zeroHash,
                         lastPushedHead := zeroHash, lastSuccess := zeroTime,
                         nextPushAttempt := zeroTime, role := r\<rparr>;
          s1 = (case cancelReplicate h1 of
                  None \<Rightarrow> s\<lparr>hook := h1\<rparr>
                | Some c \<Rightarrow> s\<lparr>cancelled := cancelled s @ [c],
                              hook := h1\<lparr>cancelReplicate := None\<rparr>\<rparr>);
          s2 = (if r = RoleDetectedBrokenConfig
                then s1\<lparr>hook := (hook s1)\<lparr>currentError := Some errDetectedBrokenConfigStr\<rparr>\<rparr>
                else s1)
      in cond_Signal s2)"

definition recordSuccessfulRemoteSrvCommit :: "time \<Rightarrow> sys \<Rightarrow> sys" where
  "recordSuccessfulRemoteSrvCommit now s =
     (if role (hook s) \<noteq> RoleStandby then s
      else s\<lparr>hook := (hook s)\<lparr>lastSuccess := now, currentError := None\<rparr>\<rparr>)"

text \<open>
  \<open>setWaitNotify(f)\<close>: a non-nil \<open>f\<close> is refused when a callback is installed, and is
  otherwise called once before it is stored.
\<close>

definition setWaitNotify :: "callback option \<Rightarrow> sys \<Rightarrow> bool \<times> sys" where
  "setWaitNotify f s =
     (case f of
        None \<Rightarrow> (True, s\<lparr>hook := (hook s)\<lparr>waitNotify := None\<rparr>\<rparr>)
      | Some cb \<Rightarrow>
          if waitNotify (hook s) \<noteq> None then (False, s)
          else (True, s\<lparr>notified := notified s @ [cb],
                        hook := (hook s)\<lparr>waitNotify := Some cb\<rparr>\<rparr>))"

definition databaseWasDropped :: "sys \<Rightarrow> sys" where
  "databaseWasDropped s = cond_Signal (s\<lparr>hook := (hook s)\<lparr>shutdown := True\<rparr>\<rparr>)"

definition NotifyWaitFailed :: "sys \<Rightarrow> sys" where
  "NotifyWaitFailed s = s\<lparr>hook := (hook s)\<lparr>fastFailReplicationWait := True\<rparr>\<rparr>"

text \<open>
  The closure that \<open>Execute\<close> returns: either the one that fails at once with the
  circuit-breaker error, or the one that selects on a success channel and on its
  context.
\<close>

datatype waitF = WaitFastFail string | WaitOnChan chan

definition circuitBreakerError :: "commithook \<Rightarrow> string" where
  "circuitBreakerError h =
     ''circuit breaker for replication to '' @ remotename h @ ''/'' @ dbname h
       @ '' is open. this commit did not necessarily replicate successfully.''"

text \<open>
  \<open>Execute\<close>.  Its first argument is the result of \<open>cs.Root(ctx)\<close> on the local
  chunk store, read before the mutex is taken; its result is the pair
  \<open>(waitF, err)\<close>.
\<close>

definition Execute :: "string + hash \<Rightarrow> time \<Rightarrow> sys \<Rightarrow> (waitF option \<times> string option) \<times> sys" where
  "Execute rootRes now s =
     (case rootRes of
        Inl err \<Rightarrow> ((None, Some err), s)
      | Inr root \<Rightarrow>
          if role (hook s) \<noteq> RolePrimary then ((None, None), s)
          else
            let s1 = (if root \<noteq> nextHead (hook s)
                      then cond_Signal
                             (s\<lparr>hook := (hook s)\<lparr>nextHeadIncomingTime := now,
                                                 nextHead := root,
                                                 nextPushAttempt := zeroTime\<rparr>\<rparr>)
                      else s)
            in if \<not> isCaughtUp (hook s1) then
                 if fastFailReplicationWait (hook s1)
                 then ((Some (WaitFastFail (circuitBreakerError (hook s1))), None), s1)
                 else
                   let s2 = (if length (successChs (hook s1)) = 0
                             then s1\<lparr>madeChs := Suc (madeChs s1),
                                     hook := (hook s1)\<lparr>successChs :=
                                               successChs (hook s1) @ [madeChs s1]\<rparr>\<rparr>
                             else s1)
                   in ((Some (WaitOnChan (successChs (hook s2) ! 0)), None), s2)
               else ((None, None), s1))"

text \<open>
  Calling a \<open>waitF\<close>: the circuit-breaker closure returns its error; the other blocks
  until its channel is closed or its context is done, and \<open>select\<close> picks either
  case when both are ready (\<open>pick\<close> decides).
\<close>

datatype wait_result = Blocks | Returns "string option"

fun callWaitF :: "waitF \<Rightarrow> chan list \<Rightarrow> string option \<Rightarrow> bool \<Rightarrow> wait_result" where
  "callWaitF (WaitFastFail msg) closed ctxErr pick = Returns (Some msg)"
| "callWaitF (WaitOnChan c) closed ctxErr pick =
     (case ctxErr of
        None \<Rightarrow> if c \<in> set closed then Returns None else Blocks
      | Some e \<Rightarrow> if c \<in> set closed \<and> pick then Returns None else Returns (Some e))"

subsection \<open>attemptReplicate\<close>

text \<open>
  \<open>attemptReplicate\<close> runs in three parts: a critical section that captures the head
  to push and steals the success channels, the remote calls with the mutex released,
  and a critical section that records the outcome.  Its two deferred functions run, in
  reverse order of their declaration, when it returns.
\<close>

definition attemptReplicate_begin :: "bool \<Rightarrow> sys \<Rightarrow> sys" where
  "attemptReplicate_begin final s =
     (let h = hook s;
          att = \<lparr>toPush = nextHead h, incomingTime = nextHeadIncomingTime h,
                 att_destDB = destDB h, att_successChs = successChs h,
                 att_final = final\<rparr>
      in s\<lparr>madeCtxs := Suc (madeCtxs s),
           hook := h\<lparr>cancelReplicate := Some (madeCtxs s), successChs := []\<rparr>,
           worker := Pushing att\<rparr>)"

text \<open>
  The deferred
  \<open>if len(successChs) != 0 { h.successChs = append(h.successChs, successChs...) }\<close>
  on the local \<open>successChs\<close>.
\<close>

definition restore_deferred :: "chan list \<Rightarrow> sys \<Rightarrow> sys" where
  "restore_deferred chs s =
     (if length chs \<noteq> 0
      then s\<lparr>hook := (hook s)\<lparr>successChs := successChs (hook s) @ chs\<rparr>\<rparr>
      else s)"

text \<open>
  Returning from \<open>attemptReplicate\<close> with the local \<open>successChs\<close> equal to \<open>chs\<close>: the
  deferred functions run, and \<open>replicate\<close> either returns (the final attempt) or
  clears \<open>shouldHeartbeat\<close> and goes round its loop, the mutex held.
\<close>

definition attempt_return :: "chan list \<Rightarrow> attempt \<Rightarrow> sys \<Rightarrow> sys" where
  "attempt_return chs att s =
     (let s1 = cancel_deferred (restore_deferred chs s)
      in if att_final att then s1\<lparr>worker := Stopped\<rparr>
         else s1\<lparr>worker := Running, shouldHeartbeat := False\<rparr>)"

text \<open>
  \<open>destDBF\<close> failed: \<open>currentError\<close> is written before the mutex is retaken.
\<close>

definition destDBF_failed :: "string \<Rightarrow> attempt \<Rightarrow> sys \<Rightarrow> sys" where
  "destDBF_failed err att s =
     s\<lparr>hook := (hook s)\<lparr>currentError :=
                 Some (''could not replicate to standby: error fetching destDB: '' @ err)\<rparr>,
       worker := FetchFailed att\<rparr>"

definition attemptReplicate_fetchFailed :: "time \<Rightarrow> attempt \<Rightarrow> sys \<Rightarrow> sys" where
  "attemptReplicate_fetchFailed now att s =
     (let h = hook s;
          h1 = (if toPush att = nextHead h then h\<lparr>nextPushAttempt := now + second\<rparr> else h)
      in attempt_return (att_successChs att) att (s\<lparr>hook := h1\<lparr>cancelReplicate := None\<rparr>\<rparr>))"

text \<open>\<open>destDBF\<close> succeeded: \<open>h.mu.Lock(); h.destDB = destDB; h.mu.Unlock()\<close>\<close>

definition destDBF_ok :: "dbhandle \<Rightarrow> attempt \<Rightarrow> sys \<Rightarrow> sys" where
  "destDBF_ok d att s =
     s\<lparr>hook := (hook s)\<lparr>destDB := Some d\<rparr>,
       worker := Pushing (att\<lparr>att_destDB := Some d\<rparr>)\<rparr>"

text \<open>
  What the destination answers to \<open>PullChunks\<close>, \<open>Rebase\<close>, \<open>Root\<close> and
  \<open>Commit(toPush, curRootHash)\<close>; a call that is not reached is not looked at.
\<close>

record remote_results =
  pullChunks :: "string option"
  rebase :: "string option"
  destRoot :: "string + hash"
  commit :: "bool \<times> string option"

definition errDestDBRootHashMoved :: string where
  "errDestDBRootHashMoved = ''cluster/commithook: standby replication: destination database root hash moved during our write, while it is assumed we are the only writer.''"

text \<open>The value of \<open>err\<close> when the mutex is retaken.\<close>

definition remoteCalls :: "remote_results \<Rightarrow> string option" where
  "remoteCalls r =
     (case pullChunks r of
        Some e \<Rightarrow> Some e
      | None \<Rightarrow>
         (case rebase r of
            Some e \<Rightarrow> Some e
          | None \<Rightarrow>
             (case destRoot r of
                Inl e \<Rightarrow> Some e
              | Inr curRootHash \<Rightarrow>
                 (case commit r of
                    (ok, Some e) \<Rightarrow> Some e
                  | (ok, None) \<Rightarrow> if \<not> ok then Some errDestDBRootHashMoved else None))))"

text \<open>
  The critical section after the remote calls, before the deferred functions: the new
  state and the value of the local \<open>successChs\<close>.
\<close>

definition attemptReplicate_locked :: "string option \<Rightarrow> time \<Rightarrow> attempt \<Rightarrow> sys \<Rightarrow> chan list \<times> sys" where
  "attemptReplicate_locked err now att s =
     (if role (hook s) = RolePrimary then
        (case err of
           None \<Rightarrow>
             let s1 = s\<lparr>hook := (hook s)\<lparr>currentError := None,
                                         lastPushedHead := toPush att,
                                         lastSuccess := incomingTime att,
                                         nextPushAttempt := zeroTime\<rparr>\<rparr>
             in if length (att_successChs att) \<noteq> 0
                then ([], close_all (att_successChs att) s1)
                else (att_successChs att, s1)
         | Some e \<Rightarrow>
             let h1 = (hook s)\<lparr>currentError :=
                         Some (''failed to commit chunks on destDB: '' @ e)\<rparr>;
                 h2 = (if toPush att = nextHead h1
                       then h1\<lparr>nextPushAttempt := now + second\<rparr> else h1)
             in (att_successChs att, s\<lparr>hook := h2\<rparr>))
      else (att_successChs att, s))"

definition attemptReplicate_end :: "string option \<Rightarrow> time \<Rightarrow> attempt \<Rightarrow> sys \<Rightarrow> sys" where
  "attemptReplicate_end err now att s =
     (case attemptReplicate_locked err now att s of (chs, s1) \<Rightarrow> attempt_return chs att s1)"

subsection \<open>attemptHeartbeat and the replicate loop\<close>

text \<open>
  \<open>attemptHeartbeat\<close> up to its \<open>h.mu.Unlock()\<close>; it returns at once, the state
  unchanged, unless the hook is a primary that has pushed a head to a known destination.
\<close>

definition attemptHeartbeat_begin :: "sys \<Rightarrow> sys" where
  "attemptHeartbeat_begin s =
     (let h = hook s
      in if role h \<noteq> RolePrimary then s
         else if lastPushedHead h = zeroHash then s
         else if destDB h = None then s
         else s\<lparr>madeCtxs := Suc (madeCtxs s),
                hook := h\<lparr>cancelReplicate := Some (madeCtxs s)\<rparr>,
                worker := Beating\<rparr>)"

text \<open>
  The rest of \<open>attemptHeartbeat\<close>, after \<open>cs.Commit(ctx, head, head)\<close> whose result
  is dropped, and the \<open>cond.Wait()\<close> that follows it in \<open>replicate\<close>.
\<close>

definition attemptHeartbeat_end :: "sys \<Rightarrow> sys" where
  "attemptHeartbeat_end s = (cancel_deferred s)\<lparr>worker := Waiting\<rparr>"

text \<open>The last branch of the loop of \<open>replicate\<close>, up to \<open>cond.Wait()\<close>.\<close>

definition replicate_idle :: "sys \<Rightarrow> sys" where
  "replicate_idle s =
     (let s1 = (case waitNotify (hook s) of
                  None \<Rightarrow> s
                | Some cb \<Rightarrow> s\<lparr>notified := notified s @ [cb]\<rparr>);
          caughtUp = isCaughtUp (hook s1);
          s2 = (if length (successChs (hook s1)) \<noteq> 0 \<and> caughtUp
                then (close_all (successChs (hook s1)) s1)
                       \<lparr>hook := (hook s1)\<lparr>successChs := [],
                                          fastFailReplicationWait := False\<rparr>\<rparr>
                else s1)
      in if shouldHeartbeat s2 then
           (let s3 = attemptHeartbeat_begin s2
            in if worker s3 = Beating then s3 else s3\<lparr>worker := Waiting\<rparr>)
         else (if caughtUp then s2\<lparr>shouldHeartbeat := True\<rparr> else s2)\<lparr>worker := Waiting\<rparr>)"

text \<open>
  One iteration of the loop of \<open>replicate\<close>, the mutex held.  \<open>localRoot\<close> is what
  \<open>cs.Root(ctx)\<close> answers on the source database, \<open>now\<close> the clock (read once in an
  iteration).
\<close>

definition replicate_iter :: "string + hash \<Rightarrow> time \<Rightarrow> sys \<Rightarrow> sys" where
  "replicate_iter localRoot now s =
     (if shutdown (hook s) then s\<lparr>worker := Stopped\<rparr>
      else if ctxDone s then
        (if shouldReplicate now (hook s) then attemptReplicate_begin True s
         else s\<lparr>worker := Stopped\<rparr>)
      else if primaryNeedsInit (hook s) then
        s\<lparr>hook := (hook s)\<lparr>nextHead := (case localRoot of Inl e \<Rightarrow> zeroHash | Inr r \<Rightarrow> r),
                            nextHeadIncomingTime := now\<rparr>\<rparr>
      else if shouldReplicate now (hook s) then attemptReplicate_begin False s
      else replicate_idle s)"

subsection \<open>The hook as a transition system\<close>

text \<open>
  Every event is one critical section of one goroutine, or one of the three accesses
  the source makes without the mutex (the atomic \<open>shutdown\<close> flag, \<open>cond.Signal()\<close>
  from the ticker and from \<open>run\<close>, the write of \<open>currentError\<close> after a failed
  \<open>destDBF\<close>).  A critical section of another goroutine can start only while the
  replicate goroutine does not hold the mutex.
\<close>

datatype event =
    EvExecute "string + hash" time
  | EvNotifyWaitFailed
  | EvSetRole Role
  | EvRecordSuccessfulRemoteSrvCommit time
  | EvSetWaitNotify "callback option"
  | EvDatabaseWasDropped
  | EvCtxDone
  | EvTick
  | EvLock
  | EvIter "string + hash" time
  | EvDestDBF "string + dbhandle"
  | EvFetchFailedLock time
  | EvRemote remote_results time
  | EvHeartbeatDone

definition mutexFree :: "sys \<Rightarrow> bool" where
  "mutexFree s = (worker s \<noteq> Running)"

fun step :: "event \<Rightarrow> sys \<Rightarrow> sys option" where
  "step (EvExecute rootRes now) s =
     (if mutexFree s then Some (snd (Execute rootRes now s)) else None)"
| "step EvNotifyWaitFailed s =
     (if mutexFree s then Some (NotifyWaitFailed s) else None)"
| "step (EvSetRole r) s =
     (if mutexFree s then Some (setRole r s) else None)"
| "step (EvRecordSuccessfulRemoteSrvCommit now) s =
     (if mutexFree s then Some (recordSuccessfulRemoteSrvCommit now s) else None)"
| "step (EvSetWaitNotify f) s =
     (if mutexFree s then Some (snd (setWaitNotify f s)) else None)"
| "step EvDatabaseWasDropped s = Some (databaseWasDropped s)"
| "step EvCtxDone s = Some (cond_Signal (s\<lparr>ctxDone := True\<rparr>))"
| "step EvTick s = Some (cond_Signal s)"
| "step EvLock s =
     (if worker s = Woken then Some (s\<lparr>worker := Running\<rparr>) else None)"
| "step (EvIter localRoot now) s =
     (if worker s = Running then Some (replicate_iter localRoot now s) else None)"
| "step (EvDestDBF res) s =
     (case worker s of
        Pushing att \<Rightarrow>
          (if att_destDB att = None
           then Some (case res of Inl e \<Rightarrow> destDBF_failed e att s
                                | Inr d \<Rightarrow> destDBF_ok d att s)
           else None)
      | _ \<Rightarrow> None)"
| "step (EvFetchFailedLock now) s =
     (case worker s of
        FetchFailed att \<Rightarrow> Some (attemptReplicate_fetchFailed now att s)
      | _ \<Rightarrow> None)"
| "step (EvRemote res now) s =
     (case worker s of
        Pushing att \<Rightarrow>
          (if att_destDB att \<noteq> None
           then Some (attemptReplicate_end (remoteCalls res) now att s)
           else None)
      | _ \<Rightarrow> None)"
| "step EvHeartbeatDone s =
     (case worker s of Beating \<Rightarrow> Some (attemptHeartbeat_end s) | _ \<Rightarrow> None)"

fun run :: "event list \<Rightarrow> sys \<Rightarrow> sys option" where
  "run [] s = Some s"
| "run (e # es) s = (case step e s of None \<Rightarrow> None | Some s' \<Rightarrow> run es s')"

text \<open>The values \<open>nextHead\<close> holds along a run, the first and the last state included.\<close>

fun headsDuring :: "event list \<Rightarrow> sys \<Rightarrow> hash list" where
  "headsDuring [] s = [nextHead (hook s)]"
| "headsDuring (e # es) s =
     nextHead (hook s) # (case step e s of None \<Rightarrow> [] | Some s' \<Rightarrow> headsDuring es s')"

text \<open>The head captured by a push that is under way.\<close>

fun inFlight :: "wstate \<Rightarrow> hash list" where
  "inFlight (Pushing att) = [toPush att]"
| "inFlight w = []"

fun isSetRole :: "event \<Rightarrow> bool" where
  "isSetRole (EvSetRole r) = True"
| "isSetRole e = False"

text \<open>\<open>newCommitHook\<close>, and the system when \<open>run\<close> has started the goroutines.\<close>

definition newCommitHook :: "string \<Rightarrow> string \<Rightarrow> Role \<Rightarrow> commithook" where
  "newCommitHook rname dname r =
     \<lparr>remotename = rname, dbname = dname, shutdown = False, nextHead = zeroHash,
      lastPushedHead = zeroHash, nextPushAttempt = zeroTime,
      nextHeadIncomingTime = zeroTime, lastSuccess = zeroTime, currentError = None,
      cancelReplicate = None, waitNotify = None, successChs = [],
      fastFailReplicationWait = False, role = r, destDB = None\<rparr>"

definition started :: "commithook \<Rightarrow> sys" where
  "started h =
     \<lparr>hook = h, closedChs = [], madeChs = 0, cancelled = [], madeCtxs = 0, signals = 0,
      notified = [], worker = Woken, shouldHeartbeat = False, ctxDone = False\<rparr>"

text \<open>
  The channels that are open: those in \<open>successChs\<close> and those a push under way has
  stolen.  \<open>chansOK\<close>: every channel was made, and none occurs twice among the closed
  and the open ones.
\<close>

fun stolen :: "wstate \<Rightarrow> chan list" where
  "stolen (Pushing att) = att_successChs att"
| "stolen (FetchFailed att) = att_successChs att"
| "stolen w = []"

definition openChs :: "sys \<Rightarrow> chan list" where
  "openChs s = successChs (hook s) @ stolen (worker s)"

definition chansOK :: "sys \<Rightarrow> bool" where
  "chansOK s = (distinct (closedChs s @ openChs s)
                \<and> list_all (\<lambda>c. c < madeChs s) (closedChs s @ openChs s))"

text \<open>A primary and a standby hook, and two heads, for the examples.\<close>

definition hookP :: commithook where
  "hookP = newCommitHook ''standby'' ''db'' RolePrimary"

definition hookS :: commithook where
  "hookS = newCommitHook ''standby'' ''db'' RoleStandby"

definition H1 :: hash where
  "H1 = 1"

definition H2 :: hash where
  "H2 = 2"

definition pushOK :: remote_results where
  "pushOK = \<lparr>pullChunks = None, rebase = None, destRoot = Inr zeroHash, commit = (True, None)\<rparr>"

definition pushMoved :: remote_results where
  "pushMoved = \<lparr>pullChunks = None, rebase = None, destRoot = Inr zeroHash, commit = (False, None)\<rparr>"

text \<open>
  A primary with head \<open>H1\<close> to push, and a push of \<open>H1\<close> under way that stole the
  channel \<open>0\<close>.
\<close>

definition attA :: attempt where
  "attA = \<lparr>toPush = H1, incomingTime = 5, att_destDB = Some 7, att_successChs = [0],
           att_final = False\<rparr>"

definition sysP :: sys where
  "sysP = (started (hookP\<lparr>nextHead := H1, nextHeadIncomingTime := 5,
                          cancelReplicate := Some 0, destDB := Some 7\<rparr>))
            \<lparr>madeChs := 1, madeCtxs := 1, worker := Pushing attA\<rparr>"

text \<open>
  A run in which a new head arrives while a push is under way: the replicate goroutine
  loads \<open>H1\<close> and starts to push it, then a commit brings \<open>H2\<close>
  (\<open>overtakePrefix\<close>, ending in \<open>overtakeBefore\<close>); then the push of \<open>H1\<close>
  succeeds (\<open>overtakeSuffix\<close>, ending in \<open>overtakeAfter\<close>).  And a run in which
  a committer waits, \<open>NotifyWaitFailed\<close> is called, and the push then succeeds
  (\<open>breakerTrace\<close>).  And a run in which \<open>setRole\<close> resets the heads while \<open>H1\<close>
  is being pushed and the push still succeeds (\<open>resetPrefix\<close>, ending in
  \<open>resetBefore\<close>); then the context is cancelled and the last attempt of \<open>replicate\<close>
  pushes the zero \<open>nextHead\<close> (\<open>resetSuffix\<close>, ending in \<open>resetAfter\<close>).
\<close>

definition breakerTrace :: "event list" where
  "breakerTrace = [EvExecute (Inr H1) 5, EvNotifyWaitFailed, EvLock, EvIter (Inr H1) 10,
               EvDestDBF (Inr 7), EvRemote pushOK 20, EvIter (Inr H1) 21]"

definition resetPrefix :: "event list" where
  "resetPrefix = [EvLock, EvIter (Inr H1) 10, EvIter (Inr H1) 11, EvSetRole RolePrimary,
                  EvDestDBF (Inr 7), EvRemote pushOK 12]"

definition resetSuffix :: "event list" where
  "resetSuffix = [EvCtxDone, EvIter (Inr H1) 13, EvRemote pushOK 14]"

definition resetBefore :: sys where
  "resetBefore = (started (hookP\<lparr>lastPushedHead := H1, nextHeadIncomingTime := 10,
                                lastSuccess := 10, destDB := Some 7\<rparr>))
                  \<lparr>cancelled := [0], madeCtxs := 1, signals := 1, worker := Running\<rparr>"

definition resetAfter :: sys where
  "resetAfter = (started (hookP\<lparr>nextHeadIncomingTime := 10, lastSuccess := 10,
                               destDB := Some 7\<rparr>))
                 \<lparr>cancelled := [0, 1], madeCtxs := 2, signals := 2, worker := Stopped,
                  ctxDone := True\<rparr>"

definition overtakePrefix :: "event list" where
  "overtakePrefix = [EvLock, EvIter (Inr H1) 10, EvIter (Inr H1) 11, EvExecute (Inr H2) 12]"

definition overtakeSuffix :: "event list" where
  "overtakeSuffix = [EvDestDBF (Inr 7), EvRemote pushOK 13]"

definition overtakeBefore :: sys where
  "overtakeBefore = (started (hookP\<lparr>nextHead := H2, nextHeadIncomingTime := 12,
                          cancelReplicate := Some 0, successChs := [0]\<rparr>))
            \<lparr>madeChs := 1, madeCtxs := 1, signals := 1,
             worker := Pushing \<lparr>toPush = H1, incomingTime = 10, att_destDB = None,
                                att_successChs = [], att_final = False\<rparr>\<rparr>"

definition overtakeAfter :: sys where
  "overtakeAfter = (started (hookP\<lparr>nextHead := H2, lastPushedHead := H1, nextHeadIncomingTime := 12,
                          lastSuccess := 10, successChs := [0], destDB := Some 7\<rparr>))
            \<lparr>madeChs := 1, cancelled := [0], madeCtxs := 1, signals := 1, worker := Running\<rparr>"

section \<open>DropDatabase (database\_provider.go)\<close>

subsection \<open>Names\<close>

text \<open>
  \<open>strings.SplitN(s, sep, 2)\<close> for a separator that occurs in \<open>s\<close>: the part before
  its first occurrence and the part after it; \<open>None\<close> when \<open>strings.Contains(s, sep)\<close>
  is false.
\<close>

fun splitFirst :: "string \<Rightarrow> string \<Rightarrow> (string \<times> string) option" where
  "splitFirst sep [] = None"
| "splitFirst sep (c # cs) =
     (if prefix sep (c # cs) then Some ([], drop (length sep) (c # cs))
      else (case splitFirst sep cs of
              None \<Rightarrow> None
            | Some (a, b) \<Rightarrow> Some (c # a, b)))"

text \<open>
  Modelled from the spec: \<open>dsess.DbRevisionDelimiter\<close> and
  \<open>dsess.SplitRevisionDbName\<close> (package \<open>dsess\<close> is not among the sources).  The
  specification: a revision database name has the form \<open>base/revspec\<close>, and a name
  splits on the revision delimiter, first occurrence only.  A name without the
  delimiter has the empty revision.
\<close>

definition DbRevisionDelimiter :: string where
  "DbRevisionDelimiter = ''/''"

definition SplitRevisionDbName :: "string \<Rightarrow> string \<times> string" where
  "SplitRevisionDbName dbName =
     (case splitFirst DbRevisionDelimiter dbName of
        None \<Rightarrow> (dbName, [])
      | Some (baseName, revision) \<Rightarrow> (baseName, revision))"

text \<open>
  \<open>strings.ToLower\<close> of the Go standard library.  On a string whose bytes are all
  ASCII it lowers the letters \<open>A\<close> to \<open>Z\<close> byte by byte; on any other string it maps
  \<open>unicode.ToLower\<close> over the runes.  That mapping, with its Unicode tables, is the
  parameter \<open>unicodeLower\<close> of \<open>ToLower\<close> and of every function that calls it.
\<close>

definition lowerChar :: "char \<Rightarrow> char" where
  "lowerChar c =
     (if (65::nat) \<le> of_char c \<and> of_char c \<le> (90::nat)
      then char_of (of_char c + (32::nat)) else c)"

definition ToLower :: "(string \<Rightarrow> string) \<Rightarrow> string \<Rightarrow> string" where
  "ToLower unicodeLower s =
     (if list_all (\<lambda>c. of_char c < (128::nat)) s then map lowerChar s
      else unicodeLower s)"

definition formatDbMapKeyName :: "(string \<Rightarrow> string) \<Rightarrow> string \<Rightarrow> string" where
  "formatDbMapKeyName unicodeLower name =
     (case splitFirst DbRevisionDelimiter name of
        None \<Rightarrow> ToLower unicodeLower name
      | Some (dbName, revSpec) \<Rightarrow>
          ToLower unicodeLower dbName @ DbRevisionDelimiter @ revSpec)"

subsection \<open>The provider\<close>

text \<open>
  An entry of \<open>p.databases\<close> is a \<open>dsess.SqlDatabase\<close>: a \<open>Database\<close>, with its name
  and its \<open>ddb\<close>, or a value of another type.  A location is given by the absolute
  path of its root.  The file system maps the absolute paths that exist to whether
  they are directories.
\<close>

datatype sqldb = Database string dbhandle | OtherSqlDatabase string

record provider =
  databases :: "string \<rightharpoonup> sqldb"
  dbLocations :: "string \<rightharpoonup> string"
  fsRoot :: string
  files :: "string \<rightharpoonup> bool"
  hasDropDatabaseHook :: bool
  dropHookCalls :: "string list"
  closedDDBs :: "dbhandle list"
  cacheDeletes :: "string list"
  invalidated :: "string list"
  muLocks :: nat

text \<open>The errors, if any, of the calls \<open>DropDatabase\<close> makes outside the provider.\<close>

record drop_env =
  closeErr :: "string option"
  dbLocAbsErr :: "string option"
  cacheErr :: "string option"
  fsAbsErr :: "string option"
  deleteErr :: "string option"
  invalidateErr :: "string option"

datatype drop_result = Dropped | DropError string | DropPanic

definition ErrDatabaseNotFound :: "string \<Rightarrow> string" where
  "ErrDatabaseNotFound n = ''database not found: '' @ n"

definition DoltDir :: string where
  "DoltDir = ''.dolt''"

text \<open>\<open>fs.Delete(dir, true)\<close>: the directory and everything below it.\<close>

definition fsDelete :: "string \<Rightarrow> (string \<rightharpoonup> bool) \<Rightarrow> (string \<rightharpoonup> bool)" where
  "fsDelete dir fs = (\<lambda>path. if path = dir \<or> prefix (dir @ ''/'') path then None else fs path)"

text \<open>
  The part of \<open>DropDatabase\<close> that runs with \<open>p.mu\<close> held, from the existence checks on
  the database directory to the end.
\<close>

definition dropLocked :: "(string \<Rightarrow> string) \<Rightarrow> drop_env \<Rightarrow> string \<Rightarrow> string \<Rightarrow> string \<Rightarrow> string \<Rightarrow> provider \<Rightarrow> drop_result \<times> provider" where
  "dropLocked unicodeLower env name dbKey dbn dropDbLoc p =
     (let rootDbLoc = fsRoot p;
          checked =
            (if rootDbLoc = dropDbLoc then
               (if files p (rootDbLoc @ ''/'' @ DoltDir) = None
                then Inl (ErrDatabaseNotFound dbn)
                else Inr (rootDbLoc @ ''/'' @ DoltDir))
             else
               (case files p dropDbLoc of
                  None \<Rightarrow> Inl (ErrDatabaseNotFound dbn)
                | Some isDir \<Rightarrow>
                    if \<not> isDir
                    then Inl (''unexpected error: '' @ dbKey @ '' exists but is not a directory'')
                    else Inr dropDbLoc))
      in case checked of
           Inl e \<Rightarrow> (DropError e, p)
         | Inr dirToDelete \<Rightarrow>
            (case deleteErr env of
               Some e \<Rightarrow> (DropError e, p)
             | None \<Rightarrow>
                 let derivativeNamePrefix = ToLower unicodeLower (dbKey @ DbRevisionDelimiter);
                     dbs = (\<lambda>dbName. if dbName = dbKey \<or> prefix derivativeNamePrefix (ToLower unicodeLower dbName)
                                      then None else databases p dbName);
                     p1 = p\<lparr>files := fsDelete dirToDelete (files p), databases := dbs,
                            invalidated := invalidated p @ [name]\<rparr>
                 in (case invalidateErr env of
                       Some e \<Rightarrow> (DropError e, p1)
                     | None \<Rightarrow> (Dropped, p1))))"

definition DropDatabase :: "(string \<Rightarrow> string) \<Rightarrow> drop_env \<Rightarrow> string \<Rightarrow> provider \<Rightarrow> drop_result \<times> provider" where
  "DropDatabase unicodeLower env name p =
     (case SplitRevisionDbName name of
        (baseName, revision) \<Rightarrow>
          if revision \<noteq> [] then
            (DropError (''unable to drop revision database: '' @ name), p)
          else
            let p1 = p\<lparr>muLocks := Suc (muLocks p)\<rparr>;
                dbKey = formatDbMapKeyName unicodeLower name
            in (case databases p1 dbKey of
                  None \<Rightarrow> (DropPanic, p1)
                | Some (OtherSqlDatabase n) \<Rightarrow> (DropPanic, p1)
                | Some (Database dbn ddb) \<Rightarrow>
                    let p2 = p1\<lparr>closedDDBs := closedDDBs p1 @ [ddb]\<rparr>
                    in (case closeErr env of
                          Some e \<Rightarrow> (DropError e, p2)
                        | None \<Rightarrow>
                           (case dbLocations p2 dbKey of
                              None \<Rightarrow> (DropError (ErrDatabaseNotFound dbn), p2)
                            | Some dropDbLoc \<Rightarrow>
                               (case dbLocAbsErr env of
                                  Some e \<Rightarrow> (DropError e, p2)
                                | None \<Rightarrow>
                                   let p3 = p2\<lparr>cacheDeletes := cacheDeletes p2
                                                  @ [dropDbLoc @ ''/.dolt/noms'']\<rparr>
                                   in (case cacheErr env of
                                         Some e \<Rightarrow> (DropError e, p3)
                                       | None \<Rightarrow>
                                          let p4 = (if hasDropDatabaseHook p3
                                                    then p3\<lparr>dropHookCalls := dropHookCalls p3 @ [name]\<rparr>
                                                    else p3)
                                          in (case fsAbsErr env of
                                                Some e \<Rightarrow> (DropError e, p4)
                                              | None \<Rightarrow> dropLocked unicodeLower env name dbKey dbn
                                                           dropDbLoc p4)))))))"

text \<open>A provider with one database \<open>db\<close> below the root \<open>/data\<close>, and calls that all succeed.\<close>

definition providerA :: provider where
  "providerA =
     \<lparr>databases = [''db'' \<mapsto> Database ''db'' 1],
      dbLocations = [''db'' \<mapsto> ''/data/db''],
      fsRoot = ''/data'',
      files = [''/data'' \<mapsto> True, ''/data/db'' \<mapsto> True, ''/data/db/.dolt'' \<mapsto> True],
      hasDropDatabaseHook = True, dropHookCalls = [], closedDDBs = [], cacheDeletes = [],
      invalidated = [], muLocks = 0\<rparr>"

text \<open>
  The names of the examples are ASCII, so that \<open>ToLower\<close> never consults its
  parameter there; \<open>noUnicode\<close> stands in for it.
\<close>

definition noUnicode :: "string \<Rightarrow> string" where
  "noUnicode s = s"

definition envOK :: drop_env where
  "envOK = \<lparr>closeErr = None, dbLocAbsErr = None, cacheErr = None, fsAbsErr = None,
            deleteErr = None, invalidateErr = None\<rparr>"

section \<open>Properties\<close>

subsection \<open>Auxiliary facts\<close>

lemmas example_defs = newCommitHook_def started_def hookP_def hookS_def H1_def H2_def
  zeroHash_def zeroTime_def second_def attA_def sysP_def pushOK_def pushMoved_def

lemma locked_ok:
  "role (hook s) = RolePrimary \<Longrightarrow>
   attemptReplicate_locked None now att s =
     (if length (att_successChs att) \<noteq> 0 then [] else att_successChs att,
      s\<lparr>hook := (hook s)\<lparr>currentError := None, lastPushedHead := toPush att,
                           lastSuccess := incomingTime att, nextPushAttempt := zeroTime\<rparr>,
        closedChs := closedChs s @ att_successChs att\<rparr>)"
  by (simp add: attemptReplicate_locked_def close_all_def Let_def)

lemma locked_err:
  "role (hook s) = RolePrimary \<Longrightarrow>
   attemptReplicate_locked (Some e) now att s =
     (att_successChs att,
      s\<lparr>hook := (hook s)\<lparr>currentError := Some (''failed to commit chunks on destDB: '' @ e),
                           nextPushAttempt := (if toPush att = nextHead (hook s) then now + second
                                               else nextPushAttempt (hook s))\<rparr>\<rparr>)"
  by (simp add: attemptReplicate_locked_def Let_def)

lemma locked_not_primary:
  "role (hook s) \<noteq> RolePrimary \<Longrightarrow>
   attemptReplicate_locked err now att s = (att_successChs att, s)"
  by (simp add: attemptReplicate_locked_def)

lemma return_hook:
  "hook (attempt_return chs att s) =
     (hook s)\<lparr>successChs := successChs (hook s) @ chs, cancelReplicate := None\<rparr>"
  by (simp add: attempt_return_def restore_deferred_def cancel_deferred_def Let_def
      split: option.splits)

lemma return_closedChs: "closedChs (attempt_return chs att s) = closedChs s"
  by (simp add: attempt_return_def restore_deferred_def cancel_deferred_def Let_def
      split: option.splits)

lemmas end_simps = attemptReplicate_end_def locked_ok locked_err locked_not_primary
  return_hook return_closedChs

lemma Execute_again:
  "Execute (Inr root) t2 (snd (Execute (Inr root) t1 s)) = Execute (Inr root) t1 s"
proof (cases "role (hook s) = RolePrimary")
  case False
  then show ?thesis by (simp add: Execute_def)
next
  case True
  show ?thesis
  proof (cases "root = nextHead (hook s)")
    case True
    with \<open>role (hook s) = RolePrimary\<close> show ?thesis
      by (simp add: Execute_def Let_def isCaughtUp_def)
  next
    case False
    with \<open>role (hook s) = RolePrimary\<close> show ?thesis
      by (simp add: Execute_def Let_def cond_Signal_def isCaughtUp_def)
  qed
qed

lemma Execute_result:
  "fst (Execute (Inr root) t1 s) =
       (if isCaughtUp (hook (snd (Execute (Inr root) t1 s))) then (None, None)
        else if fastFailReplicationWait (hook s)
        then (Some (WaitFastFail (circuitBreakerError (hook s))), None)
        else (Some (WaitOnChan (successChs (hook (snd (Execute (Inr root) t1 s))) ! 0)), None))"
proof (cases "role (hook s) = RolePrimary")
  case False
  then show ?thesis by (simp add: Execute_def isCaughtUp_def)
next
  case True
  show ?thesis
  proof (cases "root = nextHead (hook s)")
    case True
    with \<open>role (hook s) = RolePrimary\<close> show ?thesis
      by (auto simp add: Execute_def Let_def isCaughtUp_def circuitBreakerError_def)
  next
    case False
    with \<open>role (hook s) = RolePrimary\<close> show ?thesis
      by (auto simp add: Execute_def Let_def cond_Signal_def isCaughtUp_def circuitBreakerError_def)
  qed
qed

lemma Execute_chan:
  "\<not> isCaughtUp (hook (snd (Execute (Inr root) t1 s))) \<Longrightarrow> \<not> fastFailReplicationWait (hook s)
        \<Longrightarrow> successChs (hook (snd (Execute (Inr root) t1 s))) \<noteq> []"
proof (cases "role (hook s) = RolePrimary")
  case False
  assume "\<not> isCaughtUp (hook (snd (Execute (Inr root) t1 s)))"
  with False show ?thesis by (simp add: Execute_def isCaughtUp_def)
next
  case True
  assume a: "\<not> isCaughtUp (hook (snd (Execute (Inr root) t1 s)))" "\<not> fastFailReplicationWait (hook s)"
  show ?thesis
  proof (cases "root = nextHead (hook s)")
    case True
    with \<open>role (hook s) = RolePrimary\<close> a show ?thesis
      by (simp add: Execute_def Let_def isCaughtUp_def split: if_splits)
  next
    case False
    with \<open>role (hook s) = RolePrimary\<close> a show ?thesis
      by (simp add: Execute_def Let_def cond_Signal_def isCaughtUp_def split: if_splits)
  qed
qed

lemma splitFirst_revision:
  "revision \<noteq> [] \<Longrightarrow>
   \<exists>b r. splitFirst ''/'' (base @ ''/'' @ revision) = Some (b, r) \<and> r \<noteq> []"
proof (induction base)
  case Nil
  then show ?case by simp
next
  case (Cons c cs)
  then obtain b r where br: "splitFirst ''/'' (cs @ ''/'' @ revision) = Some (b, r)" "r \<noteq> []"
    by blast
  show ?case
  proof (cases "c = CHR ''/''")
    case True
    then show ?thesis by simp
  next
    case False
    with br show ?thesis by simp
  qed
qed

lemmas op_defs = Execute_def NotifyWaitFailed_def setRole_def cond_Signal_def
  replicate_iter_def replicate_idle_def attemptReplicate_begin_def attemptReplicate_end_def
  attemptReplicate_locked_def attempt_return_def restore_deferred_def cancel_deferred_def
  close_all_def destDBF_ok_def destDBF_failed_def attemptReplicate_fetchFailed_def
  attemptHeartbeat_begin_def attemptHeartbeat_end_def remoteCalls_def isCaughtUp_def
  shouldReplicate_def primaryNeedsInit_def mutexFree_def circuitBreakerError_def Let_def

lemma inFlight_Signal [simp]: "inFlight (worker (cond_Signal s)) = inFlight (worker s)"
  by (cases "worker s") (simp_all add: cond_Signal_def)

lemma hook_Signal [simp]: "hook (cond_Signal s) = hook s"
  by (simp add: cond_Signal_def)

lemma Execute_keeps:
  "lastPushedHead (hook (snd (Execute rootRes now s))) = lastPushedHead (hook s)
   \<and> inFlight (worker (snd (Execute rootRes now s))) = inFlight (worker s)"
  by (cases rootRes) (simp_all add: Execute_def Let_def)

lemma setWaitNotify_keeps:
  "lastPushedHead (hook (snd (setWaitNotify f s))) = lastPushedHead (hook s)
   \<and> inFlight (worker (snd (setWaitNotify f s))) = inFlight (worker s)"
  by (cases f) (simp_all add: setWaitNotify_def)

lemma return_keeps:
  "lastPushedHead (hook (attempt_return chs att s)) = lastPushedHead (hook s)
   \<and> inFlight (worker (attempt_return chs att s)) = []"
  by (simp add: attempt_return_def restore_deferred_def cancel_deferred_def Let_def
      split: option.splits)

lemma end_tracks:
  "(lastPushedHead (hook (attemptReplicate_end err now att s)) = lastPushedHead (hook s)
    \<or> lastPushedHead (hook (attemptReplicate_end err now att s)) = toPush att)
   \<and> inFlight (worker (attemptReplicate_end err now att s)) = []"
  by (cases err)
     (simp_all add: attemptReplicate_end_def attemptReplicate_locked_def return_keeps
        close_all_def Let_def)

lemma fetchFailed_keeps:
  "lastPushedHead (hook (attemptReplicate_fetchFailed now att s)) = lastPushedHead (hook s)
   \<and> inFlight (worker (attemptReplicate_fetchFailed now att s)) = []"
  by (simp add: attemptReplicate_fetchFailed_def return_keeps Let_def)

lemma begin_tracks:
  "lastPushedHead (hook (attemptReplicate_begin final s)) = lastPushedHead (hook s)
   \<and> inFlight (worker (attemptReplicate_begin final s)) = [nextHead (hook s)]"
  by (simp add: attemptReplicate_begin_def Let_def)

lemma heartbeat_begin_keeps:
  "lastPushedHead (hook (attemptHeartbeat_begin s)) = lastPushedHead (hook s)
   \<and> (worker (attemptHeartbeat_begin s) = worker s \<or> worker (attemptHeartbeat_begin s) = Beating)"
  by (simp add: attemptHeartbeat_begin_def Let_def)

lemma idle_keeps:
  "lastPushedHead (hook (replicate_idle s)) = lastPushedHead (hook s)
   \<and> inFlight (worker (replicate_idle s)) = []"
  by (simp add: replicate_idle_def attemptHeartbeat_begin_def close_all_def Let_def
      split: option.splits)

lemma iter_tracks:
  "worker s = Running \<Longrightarrow>
   lastPushedHead (hook (replicate_iter localRoot now s)) = lastPushedHead (hook s)
   \<and> set (inFlight (worker (replicate_iter localRoot now s))) \<subseteq> {nextHead (hook s)}"
  by (simp add: replicate_iter_def begin_tracks idle_keeps)


lemma step_lastPushedHead:
  assumes "step e s = Some s1" and "\<not> isSetRole e"
  shows "lastPushedHead (hook s1) = lastPushedHead (hook s)
         \<or> lastPushedHead (hook s1) \<in> set (inFlight (worker s))"
proof (cases e)
  case (EvExecute rootRes now)
  with assms show ?thesis by (auto simp add: Execute_keeps split: if_splits)
next
  case EvNotifyWaitFailed
  with assms show ?thesis by (auto simp add: NotifyWaitFailed_def split: if_splits)
next
  case (EvSetRole r)
  with assms show ?thesis by simp
next
  case (EvRecordSuccessfulRemoteSrvCommit now)
  with assms show ?thesis
    by (auto simp add: recordSuccessfulRemoteSrvCommit_def split: if_splits)
next
  case (EvSetWaitNotify f)
  with assms show ?thesis by (auto simp add: setWaitNotify_keeps split: if_splits)
next
  case EvDatabaseWasDropped
  with assms show ?thesis by (auto simp add: databaseWasDropped_def)
next
  case EvCtxDone
  with assms show ?thesis by auto
next
  case EvTick
  with assms show ?thesis by auto
next
  case EvLock
  with assms show ?thesis by (auto split: if_splits)
next
  case (EvIter localRoot now)
  with assms show ?thesis by (auto simp add: iter_tracks split: if_splits)
next
  case (EvDestDBF res)
  with assms show ?thesis
    by (auto simp add: destDBF_ok_def destDBF_failed_def split: wstate.splits if_splits sum.splits)
next
  case (EvFetchFailedLock now)
  with assms show ?thesis by (auto simp add: fetchFailed_keeps split: wstate.splits)
next
  case (EvRemote res now)
  with assms show ?thesis
    using end_tracks by (auto split: wstate.splits if_splits)
next
  case EvHeartbeatDone
  with assms show ?thesis
    by (auto simp add: attemptHeartbeat_end_def cancel_deferred_def
        split: wstate.splits option.splits)
qed

lemma step_inFlight:
  assumes "step e s = Some s1"
  shows "set (inFlight (worker s1)) \<subseteq> set (inFlight (worker s)) \<union> {nextHead (hook s)}"
proof (cases e)
  case (EvExecute rootRes now)
  with assms show ?thesis by (auto simp add: Execute_keeps split: if_splits)
next
  case EvNotifyWaitFailed
  with assms show ?thesis by (auto simp add: NotifyWaitFailed_def split: if_splits)
next
  case (EvSetRole r)
  with assms show ?thesis
    by (auto simp add: setRole_def Let_def split: if_splits option.splits)
next
  case (EvRecordSuccessfulRemoteSrvCommit now)
  with assms show ?thesis
    by (auto simp add: recordSuccessfulRemoteSrvCommit_def split: if_splits)
next
  case (EvSetWaitNotify f)
  with assms show ?thesis by (auto simp add: setWaitNotify_keeps split: if_splits)
next
  case EvDatabaseWasDropped
  with assms show ?thesis by (auto simp add: databaseWasDropped_def)
next
  case EvCtxDone
  with assms show ?thesis by auto
next
  case EvTick
  with assms show ?thesis by auto
next
  case EvLock
  with assms show ?thesis by (auto split: if_splits)
next
  case (EvIter localRoot now)
  with assms iter_tracks [of s localRoot now] show ?thesis by (auto split: if_splits)
next
  case (EvDestDBF res)
  with assms show ?thesis
    by (auto simp add: destDBF_ok_def destDBF_failed_def split: wstate.splits if_splits sum.splits)
next
  case (EvFetchFailedLock now)
  with assms show ?thesis by (auto simp add: fetchFailed_keeps split: wstate.splits)
next
  case (EvRemote res now)
  with assms show ?thesis
    by (auto simp add: end_tracks split: wstate.splits if_splits)
next
  case EvHeartbeatDone
  with assms show ?thesis
    by (auto simp add: attemptHeartbeat_end_def cancel_deferred_def
        split: wstate.splits option.splits)
qed

lemma run_lastPushedHead:
  assumes "run evs s = Some s'" and "list_all (\<lambda>e. \<not> isSetRole e) evs"
  shows "lastPushedHead (hook s') \<in>
           set (lastPushedHead (hook s) # inFlight (worker s) @ headsDuring evs s)"
  using assms
proof (induction evs arbitrary: s)
  case Nil
  then show ?case by simp
next
  case (Cons e evs)
  from Cons.prems(1) obtain s1 where s1: "step e s = Some s1" "run evs s1 = Some s'"
    by (auto split: option.splits)
  from Cons.prems(2) have ne: "\<not> isSetRole e" "list_all (\<lambda>e. \<not> isSetRole e) evs"
    by simp_all
  from Cons.IH [OF s1(2) ne(2)]
  have ih: "lastPushedHead (hook s') \<in>
              set (lastPushedHead (hook s1) # inFlight (worker s1) @ headsDuring evs s1)" .
  have hd: "headsDuring (e # evs) s = nextHead (hook s) # headsDuring evs s1"
    using s1(1) by simp
  from step_lastPushedHead [OF s1(1) ne(1)] step_inFlight [OF s1(1)] ih
  show ?case unfolding hd by auto
qed

lemma attemptReplicate_end_fastFail:
  "fastFailReplicationWait (hook (attemptReplicate_end err now att s))
     = fastFailReplicationWait (hook s)"
  by (cases err)
     (simp_all add: attemptReplicate_end_def attemptReplicate_locked_def return_hook
        close_all_def Let_def)

lemma stolen_Signal [simp]: "stolen (worker (cond_Signal s)) = stolen (worker s)"
  by (cases "worker s") (simp_all add: cond_Signal_def)

lemma fields_Signal [simp]:
  "closedChs (cond_Signal s) = closedChs s" "madeChs (cond_Signal s) = madeChs s"
  by (simp_all add: cond_Signal_def)

lemma chansOK_Signal [simp]: "chansOK (cond_Signal s) = chansOK s"
  by (simp add: chansOK_def openChs_def)

lemma chansOK_Execute: "chansOK s \<Longrightarrow> chansOK (snd (Execute rootRes now s))"
  by (cases rootRes)
     (auto simp add: Execute_def Let_def chansOK_def openChs_def list_all_iff
        split: if_splits intro: less_SucI)

lemma chansOK_return:
  "worker s = Pushing att \<or> worker s = FetchFailed att \<Longrightarrow>
   chansOK (s\<lparr>worker := Running\<rparr>\<lparr>hook := (hook s)\<lparr>successChs := successChs (hook s) @ chs\<rparr>\<rparr>)
   \<Longrightarrow> chansOK (attempt_return chs att s)"
  by (auto simp add: attempt_return_def restore_deferred_def cancel_deferred_def Let_def
      chansOK_def openChs_def split: option.splits)

lemma chansOK_end:
  "chansOK s \<Longrightarrow> worker s = Pushing att \<Longrightarrow> chansOK (attemptReplicate_end err now att s)"
  by (cases err)
     (auto simp add: attemptReplicate_end_def attemptReplicate_locked_def Let_def close_all_def
        attempt_return_def restore_deferred_def cancel_deferred_def
        chansOK_def openChs_def list_all_iff split: option.splits)

lemma chansOK_fetchFailed:
  "chansOK s \<Longrightarrow> worker s = FetchFailed att \<Longrightarrow>
   chansOK (attemptReplicate_fetchFailed now att s)"
  by (auto simp add: attemptReplicate_fetchFailed_def Let_def
        attempt_return_def restore_deferred_def cancel_deferred_def
        chansOK_def openChs_def list_all_iff split: option.splits)

lemma chansOK_idle:
  "chansOK s \<Longrightarrow> worker s = Running \<Longrightarrow> chansOK (replicate_idle s)"
  by (auto simp add: replicate_idle_def attemptHeartbeat_begin_def close_all_def Let_def
        chansOK_def openChs_def list_all_iff split: option.splits)

lemma chansOK_iter:
  "chansOK s \<Longrightarrow> worker s = Running \<Longrightarrow> chansOK (replicate_iter localRoot now s)"
  by (auto simp add: replicate_iter_def chansOK_idle)
     (auto simp add: attemptReplicate_begin_def Let_def chansOK_def openChs_def list_all_iff)

lemma chansOK_step:
  assumes "step e s = Some s1" and "chansOK s"
  shows "chansOK s1"
proof (cases e)
  case (EvExecute rootRes now)
  with assms show ?thesis by (auto simp add: chansOK_Execute split: if_splits)
next
  case EvNotifyWaitFailed
  with assms show ?thesis
    by (auto simp add: NotifyWaitFailed_def chansOK_def openChs_def split: if_splits)
next
  case (EvSetRole r)
  with assms show ?thesis
    by (auto simp add: setRole_def Let_def chansOK_def openChs_def cond_Signal_def
        split: if_splits option.splits)
next
  case (EvRecordSuccessfulRemoteSrvCommit now)
  with assms show ?thesis
    by (auto simp add: recordSuccessfulRemoteSrvCommit_def chansOK_def openChs_def
        split: if_splits)
next
  case (EvSetWaitNotify f)
  with assms show ?thesis
    by (cases f) (auto simp add: setWaitNotify_def chansOK_def openChs_def split: if_splits)
next
  case EvDatabaseWasDropped
  with assms show ?thesis
    by (auto simp add: databaseWasDropped_def) (simp add: chansOK_def openChs_def)
next
  case EvCtxDone
  with assms have "s1 = cond_Signal (s\<lparr>ctxDone := True\<rparr>)" by simp
  moreover have "chansOK (s\<lparr>ctxDone := True\<rparr>)"
    using assms(2) by (simp add: chansOK_def openChs_def)
  ultimately show ?thesis by simp
next
  case EvTick
  with assms show ?thesis by auto
next
  case EvLock
  with assms show ?thesis by (auto simp add: chansOK_def openChs_def split: if_splits)
next
  case (EvIter localRoot now)
  with assms show ?thesis by (auto simp add: chansOK_iter split: if_splits)
next
  case (EvDestDBF res)
  with assms show ?thesis
    by (auto simp add: destDBF_ok_def destDBF_failed_def chansOK_def openChs_def
        split: wstate.splits if_splits sum.splits)
next
  case (EvFetchFailedLock now)
  with assms show ?thesis by (auto simp add: chansOK_fetchFailed split: wstate.splits)
next
  case (EvRemote res now)
  with assms show ?thesis by (auto simp add: chansOK_end split: wstate.splits if_splits)
next
  case EvHeartbeatDone
  with assms show ?thesis
    by (auto simp add: attemptHeartbeat_end_def cancel_deferred_def chansOK_def openChs_def
        split: wstate.splits option.splits)
qed

lemma chansOK_run: "run evs s = Some s' \<Longrightarrow> chansOK s \<Longrightarrow> chansOK s'"
  by (induction evs arbitrary: s) (auto simp add: chansOK_step split: option.splits)

text \<open>No channel is closed twice, so that no \<open>close\<close> of the hook panics.\<close>

lemma no_double_close:
  "run evs (started (newCommitHook rname dname r)) = Some s \<Longrightarrow> distinct (closedChs s)"
proof -
  assume a: "run evs (started (newCommitHook rname dname r)) = Some s"
  have "chansOK (started (newCommitHook rname dname r))"
    by (simp add: chansOK_def openChs_def started_def newCommitHook_def)
  from chansOK_run [OF a this] show ?thesis by (simp add: chansOK_def)
qed

subsection \<open>isCaughtUp\<close>

text \<open>
  C1, as the code has it: \<open>isCaughtUp()\<close> is true if and only if the role is not Primary,
  or \<open>nextHead\<close> is not the zero hash and equals \<open>lastPushedHead\<close>.
\<close>

theorem isCaughtUp_iff:
  "isCaughtUp h \<longleftrightarrow>
     role h \<noteq> RolePrimary \<or> (nextHead h \<noteq> zeroHash \<and> nextHead h = lastPushedHead h)"
  by (simp add: isCaughtUp_def)

theorem isCaughtUp_iff_witness:
  "isCaughtUp (hookP\<lparr>nextHead := H1, lastPushedHead := H1\<rparr>) \<and> isCaughtUp hookS
   \<and> \<not> isCaughtUp (hookP\<lparr>nextHead := H2, lastPushedHead := H1\<rparr>)"
  using isCaughtUp_iff [of "hookP\<lparr>nextHead := H1, lastPushedHead := H1\<rparr>"]
    isCaughtUp_iff [of hookS]
    isCaughtUp_iff [of "hookP\<lparr>nextHead := H2, lastPushedHead := H1\<rparr>"]
  by (simp add: example_defs)

text \<open>
  C1 as stated fails: a primary whose \<open>nextHead\<close> is the zero hash is not caught up.
\<close>

theorem isCaughtUp_zero_head_counterexample:
  "role hookP = RolePrimary \<and> nextHead hookP = zeroHash \<and> \<not> isCaughtUp hookP"
  by (simp add: isCaughtUp_def example_defs)

subsection \<open>attemptReplicate, after the remote calls\<close>

text \<open>
  C2: when \<open>attemptReplicate\<close> has retaken the mutex and the role is still Primary, a
  success clears \<open>currentError\<close>, sets \<open>lastPushedHead\<close> to the captured \<open>toPush\<close> and
  \<open>lastSuccess\<close> to the captured \<open>incomingTime\<close>, clears \<open>nextPushAttempt\<close> and closes
  every stolen channel; a failure sets \<open>currentError\<close> and, only when \<open>toPush\<close> still
  equals \<open>nextHead\<close>, sets \<open>nextPushAttempt\<close> to one second from now.  When the role
  is no longer Primary none of these fields is updated and no channel is closed.
\<close>

theorem attemptReplicate_end_outcome:
  "(role (hook s) = RolePrimary \<longrightarrow>
      currentError (hook (attemptReplicate_end None now att s)) = None
    \<and> lastPushedHead (hook (attemptReplicate_end None now att s)) = toPush att
    \<and> lastSuccess (hook (attemptReplicate_end None now att s)) = incomingTime att
    \<and> nextPushAttempt (hook (attemptReplicate_end None now att s)) = zeroTime
    \<and> closedChs (attemptReplicate_end None now att s) = closedChs s @ att_successChs att
    \<and> currentError (hook (attemptReplicate_end (Some e) now att s)) =
        Some (''failed to commit chunks on destDB: '' @ e)
    \<and> nextPushAttempt (hook (attemptReplicate_end (Some e) now att s)) =
        (if toPush att = nextHead (hook s) then now + second else nextPushAttempt (hook s))
    \<and> lastPushedHead (hook (attemptReplicate_end (Some e) now att s)) = lastPushedHead (hook s)
    \<and> lastSuccess (hook (attemptReplicate_end (Some e) now att s)) = lastSuccess (hook s)
    \<and> closedChs (attemptReplicate_end (Some e) now att s) = closedChs s)
   \<and> (role (hook s) \<noteq> RolePrimary \<longrightarrow>
      currentError (hook (attemptReplicate_end err now att s)) = currentError (hook s)
    \<and> lastPushedHead (hook (attemptReplicate_end err now att s)) = lastPushedHead (hook s)
    \<and> lastSuccess (hook (attemptReplicate_end err now att s)) = lastSuccess (hook s)
    \<and> nextPushAttempt (hook (attemptReplicate_end err now att s)) = nextPushAttempt (hook s)
    \<and> closedChs (attemptReplicate_end err now att s) = closedChs s)"
proof (cases "role (hook s) = RolePrimary")
  case True
  then show ?thesis by (simp add: end_simps)
next
  case False
  then show ?thesis by (simp add: end_simps)
qed

theorem attemptReplicate_end_outcome_witness:
  "role (hook sysP) = RolePrimary
   \<and> lastPushedHead (hook (attemptReplicate_end None 9 attA sysP)) = H1
   \<and> lastSuccess (hook (attemptReplicate_end None 9 attA sysP)) = 5
   \<and> closedChs (attemptReplicate_end None 9 attA sysP) = [0]
   \<and> toPush attA = nextHead (hook sysP)
   \<and> nextPushAttempt (hook (attemptReplicate_end (Some ''unavailable'') 9 attA sysP)) = 1000000009
   \<and> toPush attA \<noteq> nextHead (hook (sysP\<lparr>hook := (hook sysP)\<lparr>nextHead := H2\<rparr>\<rparr>))
   \<and> nextPushAttempt (hook (attemptReplicate_end (Some ''unavailable'') 9 attA
         (sysP\<lparr>hook := (hook sysP)\<lparr>nextHead := H2\<rparr>\<rparr>))) = 0
   \<and> role (hook (setRole RoleStandby sysP)) \<noteq> RolePrimary
   \<and> lastPushedHead (hook (attemptReplicate_end None 9 attA (setRole RoleStandby sysP))) = 0
   \<and> closedChs (attemptReplicate_end None 9 attA (setRole RoleStandby sysP)) = []"
  using attemptReplicate_end_outcome [of sysP 9 attA "''unavailable''" None]
    attemptReplicate_end_outcome [of "sysP\<lparr>hook := (hook sysP)\<lparr>nextHead := H2\<rparr>\<rparr>" 9 attA
      "''unavailable''" None]
    attemptReplicate_end_outcome [of "setRole RoleStandby sysP" 9 attA "''unavailable''" None]
  by (simp add: example_defs setRole_def cond_Signal_def)

text \<open>
  C9, as the code has it: when \<open>Commit(toPush, curRootHash)\<close> answers \<open>ok = false\<close>
  with a nil error, the attempt fails with exactly \<open>errDestDBRootHashMoved\<close>, and it
  is handled as every failure of the push is.  \<open>lastPushedHead\<close> is unchanged, no
  channel is closed and the stolen channels are put back.  If the role is still Primary
  when the mutex is retaken, \<open>currentError\<close> is set to the error behind the prefix
  \<open>failed to commit chunks on destDB: \<close>, and \<open>nextPushAttempt\<close> is set to one second
  from now only when \<open>toPush\<close> still equals \<open>nextHead\<close>.  If the role is no longer
  Primary, \<open>currentError\<close> and \<open>nextPushAttempt\<close> stay as they are.
\<close>

theorem commit_not_ok:
  assumes "pullChunks r = None" and "rebase r = None" and "destRoot r = Inr cur"
    and "commit r = (False, None)"
  shows "remoteCalls r = Some errDestDBRootHashMoved
       \<and> lastPushedHead (hook (attemptReplicate_end (remoteCalls r) now att s)) = lastPushedHead (hook s)
       \<and> closedChs (attemptReplicate_end (remoteCalls r) now att s) = closedChs s
       \<and> successChs (hook (attemptReplicate_end (remoteCalls r) now att s)) =
           successChs (hook s) @ att_successChs att
       \<and> (role (hook s) = RolePrimary \<longrightarrow>
            currentError (hook (attemptReplicate_end (remoteCalls r) now att s)) =
              Some (''failed to commit chunks on destDB: '' @ errDestDBRootHashMoved)
          \<and> nextPushAttempt (hook (attemptReplicate_end (remoteCalls r) now att s)) =
              (if toPush att = nextHead (hook s) then now + second
               else nextPushAttempt (hook s)))
       \<and> (role (hook s) \<noteq> RolePrimary \<longrightarrow>
            currentError (hook (attemptReplicate_end (remoteCalls r) now att s)) =
              currentError (hook s)
          \<and> nextPushAttempt (hook (attemptReplicate_end (remoteCalls r) now att s)) =
              nextPushAttempt (hook s))"
proof -
  have r: "remoteCalls r = Some errDestDBRootHashMoved"
    using assms by (simp add: remoteCalls_def)
  show ?thesis
  proof (cases "role (hook s) = RolePrimary")
    case True
    then show ?thesis unfolding r by (simp add: end_simps)
  next
    case False
    then show ?thesis unfolding r by (simp add: end_simps)
  qed
qed

theorem commit_not_ok_witness:
  "pullChunks pushMoved = None \<and> rebase pushMoved = None \<and> destRoot pushMoved = Inr zeroHash
   \<and> commit pushMoved = (False, None) \<and> role (hook sysP) = RolePrimary
   \<and> toPush attA = nextHead (hook sysP)
   \<and> currentError (hook (attemptReplicate_end (remoteCalls pushMoved) 9 attA sysP)) =
       Some (''failed to commit chunks on destDB: '' @ errDestDBRootHashMoved)
   \<and> nextPushAttempt (hook (attemptReplicate_end (remoteCalls pushMoved) 9 attA sysP)) = 1000000009
   \<and> lastPushedHead (hook (attemptReplicate_end (remoteCalls pushMoved) 9 attA sysP)) = 0
   \<and> successChs (hook (attemptReplicate_end (remoteCalls pushMoved) 9 attA sysP)) = [0]
   \<and> role (hook (setRole RoleStandby sysP)) \<noteq> RolePrimary
   \<and> currentError (hook (attemptReplicate_end (remoteCalls pushMoved) 9 attA
         (setRole RoleStandby sysP))) = None"
proof -
  have a: "pullChunks pushMoved = None" by (simp add: pushMoved_def)
  have b: "rebase pushMoved = None" by (simp add: pushMoved_def)
  have c: "destRoot pushMoved = Inr zeroHash" by (simp add: pushMoved_def)
  have d: "commit pushMoved = (False, None)" by (simp add: pushMoved_def)
  have e: "role (hook sysP) = RolePrimary" by (simp add: example_defs)
  have f: "toPush attA = nextHead (hook sysP)" by (simp add: example_defs)
  have g: "lastPushedHead (hook sysP) = 0" "successChs (hook sysP) = []"
    "att_successChs attA = [0]"
    by (simp_all add: example_defs)
  have h: "role (hook (setRole RoleStandby sysP)) \<noteq> RolePrimary"
    "currentError (hook (setRole RoleStandby sysP)) = None"
    by (simp_all add: setRole_def cond_Signal_def example_defs)
  note t = commit_not_ok [OF a b c d, of 9 attA sysP]
  note u = commit_not_ok [OF a b c d, of 9 attA "setRole RoleStandby sysP"]
  have r: "remoteCalls pushMoved = Some errDestDBRootHashMoved"
    using t by blast
  show ?thesis
    using t [unfolded r] u [unfolded r] a b c d e f g h
    by (simp add: r second_def)
qed

text \<open>
  C9 as stated fails: the error is not recorded and no attempt is put off when
  \<open>setRole\<close> ran during the push, and no attempt is put off when \<open>Execute\<close> brought a
  newer head during the push.
\<close>

theorem commit_not_ok_counterexample:
  "remoteCalls pushMoved = Some errDestDBRootHashMoved
   \<and> currentError (hook (attemptReplicate_end (remoteCalls pushMoved) 9 attA
         (setRole RoleStandby sysP))) = None
   \<and> nextPushAttempt (hook (attemptReplicate_end (remoteCalls pushMoved) 9 attA
         (setRole RoleStandby sysP))) = zeroTime
   \<and> role (hook (snd (Execute (Inr H2) 8 sysP))) = RolePrimary
   \<and> nextPushAttempt (hook (attemptReplicate_end (remoteCalls pushMoved) 9 attA
         (snd (Execute (Inr H2) 8 sysP)))) = zeroTime"
  by (simp add: op_defs example_defs)

subsection \<open>Execute\<close>

text \<open>
  C5: when \<open>Execute\<close> runs with role Primary and the root it read differs from
  \<open>nextHead\<close>, it sets \<open>nextHeadIncomingTime\<close> to the current time and \<open>nextHead\<close> to
  the root, clears \<open>nextPushAttempt\<close> and signals the replicate goroutine; when the
  root equals \<open>nextHead\<close> none of these fields changes and no signal is sent.
\<close>

theorem Execute_new_root:
  assumes "role (hook s) = RolePrimary"
  shows "(root \<noteq> nextHead (hook s) \<longrightarrow>
            nextHeadIncomingTime (hook (snd (Execute (Inr root) now s))) = now
          \<and> nextHead (hook (snd (Execute (Inr root) now s))) = root
          \<and> nextPushAttempt (hook (snd (Execute (Inr root) now s))) = zeroTime
          \<and> signals (snd (Execute (Inr root) now s)) = Suc (signals s))
       \<and> (root = nextHead (hook s) \<longrightarrow>
            nextHeadIncomingTime (hook (snd (Execute (Inr root) now s))) = nextHeadIncomingTime (hook s)
          \<and> nextHead (hook (snd (Execute (Inr root) now s))) = nextHead (hook s)
          \<and> nextPushAttempt (hook (snd (Execute (Inr root) now s))) = nextPushAttempt (hook s)
          \<and> signals (snd (Execute (Inr root) now s)) = signals s)"
  using assms by (simp add: Execute_def cond_Signal_def Let_def)

theorem Execute_new_root_witness:
  "role (hook sysP) = RolePrimary \<and> H2 \<noteq> nextHead (hook sysP)
   \<and> nextHeadIncomingTime (hook (snd (Execute (Inr H2) 12 sysP))) = 12
   \<and> nextHead (hook (snd (Execute (Inr H2) 12 sysP))) = H2
   \<and> signals (snd (Execute (Inr H2) 12 sysP)) = 1
   \<and> H1 = nextHead (hook sysP)
   \<and> nextHeadIncomingTime (hook (snd (Execute (Inr H1) 12 sysP))) = 5
   \<and> signals (snd (Execute (Inr H1) 12 sysP)) = 0"
  using Execute_new_root [of sysP H2 12] Execute_new_root [of sysP H1 12]
  by (simp add: example_defs)

text \<open>
  C8, as the code has it: when the role is not Primary and the local root was read,
  \<open>Execute\<close> returns \<open>(nil, nil)\<close> and changes nothing; when the read of the local root
  failed it returns \<open>(nil, err)\<close> and changes nothing.
\<close>

theorem Execute_not_primary:
  assumes "role (hook s) \<noteq> RolePrimary"
  shows "Execute (Inr root) now s = ((None, None), s)
       \<and> Execute (Inl err) now s = ((None, Some err), s)"
  using assms by (simp add: Execute_def)

theorem Execute_not_primary_witness:
  "role (hook (started hookS)) \<noteq> RolePrimary
   \<and> Execute (Inr H1) 12 (started hookS) = ((None, None), started hookS)"
  using Execute_not_primary [of "started hookS" H1 12]
  by (simp add: example_defs)

text \<open>
  C8 as stated fails: on a standby whose local chunk store cannot give its root,
  \<open>Execute\<close> returns that error, not \<open>(nil, nil)\<close>.
\<close>

theorem Execute_not_primary_counterexample:
  "role (hook (started hookS)) \<noteq> RolePrimary
   \<and> fst (Execute (Inl ''chunk store closed'') 12 (started hookS))
       = (None, Some ''chunk store closed'')"
  by (simp add: Execute_def example_defs)

text \<open>
  C6, as the code has it: when \<open>Execute\<close> is called twice with the same root and
  nothing else runs on the hook in between, the second call changes nothing (no field,
  no signal, no new channel) and returns what the first returned: a nil \<open>waitF\<close> when
  the hook is caught up, the circuit-breaker \<open>waitF\<close> when \<open>fastFailReplicationWait\<close>
  is set, and otherwise a \<open>waitF\<close> on the first element of \<open>successChs\<close>, which is
  not empty.
\<close>

theorem Execute_twice:
  "Execute (Inr root) t2 (snd (Execute (Inr root) t1 s)) = Execute (Inr root) t1 s
   \<and> fst (Execute (Inr root) t1 s) =
       (if isCaughtUp (hook (snd (Execute (Inr root) t1 s))) then (None, None)
        else if fastFailReplicationWait (hook s)
        then (Some (WaitFastFail (circuitBreakerError (hook s))), None)
        else (Some (WaitOnChan (successChs (hook (snd (Execute (Inr root) t1 s))) ! 0)), None))
   \<and> (\<not> isCaughtUp (hook (snd (Execute (Inr root) t1 s)))
        \<and> \<not> fastFailReplicationWait (hook s)
      \<longrightarrow> successChs (hook (snd (Execute (Inr root) t1 s))) \<noteq> [])"
  using Execute_again [of root t2 t1 s] Execute_result [of root t1 s]
    Execute_chan [of root t1 s]
  by blast

theorem Execute_twice_witness:
  "\<not> isCaughtUp (hook (snd (Execute (Inr H1) 5 (started hookP))))
   \<and> \<not> fastFailReplicationWait (hook (started hookP))
   \<and> fst (Execute (Inr H1) 5 (started hookP)) = (Some (WaitOnChan 0), None)
   \<and> successChs (hook (snd (Execute (Inr H1) 5 (started hookP)))) = [0]
   \<and> Execute (Inr H1) 6 (snd (Execute (Inr H1) 5 (started hookP)))
       = Execute (Inr H1) 5 (started hookP)"
  using Execute_twice [of H1 6 5 "started hookP"]
  by (simp add: Execute_def Let_def cond_Signal_def isCaughtUp_def example_defs)

text \<open>
  C6 as stated fails: once \<open>NotifyWaitFailed\<close> has been called, the second of two
  calls with the same root returns the circuit-breaker \<open>waitF\<close>, which is neither nil
  nor backed by a channel.
\<close>

theorem Execute_twice_counterexample:
  "fst (Execute (Inr H1) 6 (snd (Execute (Inr H1) 5 (NotifyWaitFailed (started hookP)))))
     = (Some (WaitFastFail (circuitBreakerError hookP)), None)"
  by (simp add: Execute_def Let_def cond_Signal_def isCaughtUp_def NotifyWaitFailed_def
      circuitBreakerError_def example_defs)

subsection \<open>setRole\<close>

text \<open>
  C7: \<open>setRole(newRole)\<close> resets \<open>nextHead\<close>, \<open>lastPushedHead\<close>, \<open>lastSuccess\<close> and
  \<open>nextPushAttempt\<close> to their zero values and \<open>currentError\<close> to nil, stores the new
  role, invokes the cancel function of a push under way, then sets \<open>currentError\<close> to
  the fixed message when the new role is DetectedBrokenConfig, and signals the replicate
  goroutine; afterwards \<open>isCaughtUp()\<close> is true for every new role other than Primary.
\<close>

theorem setRole_resets:
  "nextHead (hook (setRole r s)) = zeroHash
   \<and> lastPushedHead (hook (setRole r s)) = zeroHash
   \<and> lastSuccess (hook (setRole r s)) = zeroTime
   \<and> nextPushAttempt (hook (setRole r s)) = zeroTime
   \<and> role (hook (setRole r s)) = r
   \<and> currentError (hook (setRole r s)) =
       (if r = RoleDetectedBrokenConfig then Some errDetectedBrokenConfigStr else None)
   \<and> cancelReplicate (hook (setRole r s)) = None
   \<and> cancelled (setRole r s) =
       cancelled s @ (case cancelReplicate (hook s) of None \<Rightarrow> [] | Some c \<Rightarrow> [c])
   \<and> signals (setRole r s) = Suc (signals s)
   \<and> (r \<noteq> RolePrimary \<longrightarrow> isCaughtUp (hook (setRole r s)))"
  by (simp add: setRole_def cond_Signal_def isCaughtUp_def Let_def split: option.splits)

theorem setRole_resets_witness:
  "cancelReplicate (hook sysP) = Some 0
   \<and> cancelled (setRole RoleDetectedBrokenConfig sysP) = [0]
   \<and> currentError (hook (setRole RoleDetectedBrokenConfig sysP)) = Some errDetectedBrokenConfigStr
   \<and> currentError (hook (setRole RoleStandby sysP)) = None
   \<and> nextHead (hook (setRole RoleStandby sysP)) = 0
   \<and> RoleStandby \<noteq> RolePrimary
   \<and> isCaughtUp (hook (setRole RoleStandby sysP))"
  using setRole_resets [of RoleDetectedBrokenConfig sysP] setRole_resets [of RoleStandby sysP]
  by (simp add: example_defs)

subsection \<open>The hook over time\<close>

text \<open>
  C3, as the code has it: along every run without a call of \<open>setRole\<close>, the value of
  \<open>lastPushedHead\<close> at the end is its value at the start, or a value that \<open>nextHead\<close>
  held during the run, or the head captured by a push that was already under way at
  the start; so it is zero at the end only if it was zero at the start, or the zero hash
  was held by \<open>nextHead\<close> during the run or captured by a push under way at the start.
  And \<open>setRole\<close> resets \<open>lastPushedHead\<close> to zero.
\<close>

theorem lastPushedHead_tracks:
  "(run evs s = Some s' \<and> list_all (\<lambda>e. \<not> isSetRole e) evs \<longrightarrow>
      lastPushedHead (hook s') \<in>
        set (lastPushedHead (hook s) # inFlight (worker s) @ headsDuring evs s)
      \<and> (lastPushedHead (hook s') = zeroHash \<longrightarrow>
           lastPushedHead (hook s) = zeroHash
           \<or> zeroHash \<in> set (inFlight (worker s) @ headsDuring evs s)))
   \<and> lastPushedHead (hook (setRole r s)) = zeroHash"
proof -
  have reset: "lastPushedHead (hook (setRole r s)) = zeroHash"
    by (simp add: setRole_def Let_def split: option.splits)
  show ?thesis
  proof (cases "run evs s = Some s' \<and> list_all (\<lambda>e. \<not> isSetRole e) evs")
    case False
    with reset show ?thesis by blast
  next
    case True
    then have "lastPushedHead (hook s') \<in>
        set (lastPushedHead (hook s) # inFlight (worker s) @ headsDuring evs s)"
      using run_lastPushedHead by blast
    with reset show ?thesis by auto
  qed
qed

theorem lastPushedHead_tracks_witness:
  "run overtakeSuffix overtakeBefore = Some overtakeAfter
   \<and> list_all (\<lambda>e. \<not> isSetRole e) overtakeSuffix
   \<and> lastPushedHead (hook overtakeAfter) \<in> set (inFlight (worker overtakeBefore))
   \<and> run resetSuffix resetBefore = Some resetAfter
   \<and> list_all (\<lambda>e. \<not> isSetRole e) resetSuffix
   \<and> lastPushedHead (hook resetAfter) = zeroHash
   \<and> zeroHash \<in> set (headsDuring resetSuffix resetBefore)
   \<and> lastPushedHead (hook (setRole RoleStandby overtakeBefore)) = zeroHash"
proof -
  have a: "run overtakeSuffix overtakeBefore = Some overtakeAfter"
    by (simp add: overtakeSuffix_def overtakeBefore_def overtakeAfter_def op_defs example_defs)
  have b: "list_all (\<lambda>e. \<not> isSetRole e) overtakeSuffix"
    by (simp add: overtakeSuffix_def)
  have c: "headsDuring overtakeSuffix overtakeBefore = [H2, H2, H2]"
    by (simp add: overtakeSuffix_def overtakeBefore_def overtakeAfter_def op_defs example_defs)
  have d: "lastPushedHead (hook overtakeBefore) = 0" "lastPushedHead (hook overtakeAfter) = 1"
    "H2 = 2" "inFlight (worker overtakeBefore) = [1]"
    by (simp_all add: overtakeBefore_def overtakeAfter_def example_defs)
  have a': "run resetSuffix resetBefore = Some resetAfter"
    by (simp add: resetSuffix_def resetBefore_def resetAfter_def op_defs example_defs)
  have b': "list_all (\<lambda>e. \<not> isSetRole e) resetSuffix"
    by (simp add: resetSuffix_def)
  have c': "headsDuring resetSuffix resetBefore = [0, 0, 0, 0]"
    by (simp add: resetSuffix_def resetBefore_def resetAfter_def op_defs example_defs)
  have d': "lastPushedHead (hook resetBefore) = 1" "lastPushedHead (hook resetAfter) = 0"
    "inFlight (worker resetBefore) = []"
    by (simp_all add: resetBefore_def resetAfter_def example_defs)
  show ?thesis
    using lastPushedHead_tracks [of overtakeSuffix overtakeBefore overtakeAfter RoleStandby]
      lastPushedHead_tracks [of resetSuffix resetBefore resetAfter RoleStandby]
      a b a' b'
    unfolding c d c' d' by (simp add: zeroHash_def)
qed

text \<open>
  C3 as stated fails twice.  In \<open>overtakeBefore\<close> the push of \<open>H1\<close> is under way and
  \<open>nextHead\<close> is already \<open>H2\<close>; when the push succeeds \<open>lastPushedHead\<close> becomes
  \<open>H1\<close>, which is neither its earlier value nor a value \<open>nextHead\<close> held since.  In
  \<open>resetBefore\<close> \<open>lastPushedHead\<close> is \<open>H1\<close> and \<open>nextHead\<close> is zero; the last
  attempt of \<open>replicate\<close> pushes the zero hash, and \<open>lastPushedHead\<close> goes back to
  zero with no call of \<open>setRole\<close> since \<open>resetBefore\<close>.
\<close>

theorem lastPushedHead_counterexample:
  "run overtakePrefix (started hookP) = Some overtakeBefore
   \<and> run overtakeSuffix overtakeBefore = Some overtakeAfter
   \<and> list_all (\<lambda>e. \<not> isSetRole e) overtakeSuffix
   \<and> lastPushedHead (hook overtakeAfter) \<noteq> lastPushedHead (hook overtakeBefore)
   \<and> lastPushedHead (hook overtakeAfter) \<notin> set (headsDuring overtakeSuffix overtakeBefore)
   \<and> run resetPrefix (started hookP) = Some resetBefore
   \<and> run resetSuffix resetBefore = Some resetAfter
   \<and> list_all (\<lambda>e. \<not> isSetRole e) resetSuffix
   \<and> lastPushedHead (hook resetBefore) = H1 \<and> H1 \<noteq> zeroHash
   \<and> lastPushedHead (hook resetAfter) = zeroHash"
  by (simp add: overtakePrefix_def overtakeSuffix_def overtakeBefore_def overtakeAfter_def
      resetPrefix_def resetSuffix_def resetBefore_def resetAfter_def op_defs example_defs)

text \<open>
  C4 fails on the code: a committer waits on a channel, \<open>NotifyWaitFailed\<close> sets
  \<open>fastFailReplicationWait\<close>, the push succeeds and closes the channel, the loop goes
  idle, and the flag is still set, so that \<open>Execute\<close> with a new root returns the
  circuit-breaker \<open>waitF\<close> again.  (\<open>attemptReplicate\<close> never writes the flag, lemma
  \<open>attemptReplicate_end_fastFail\<close>; only the idle branch of \<open>replicate\<close> clears it,
  and only when it finds channels left in \<open>successChs\<close>.)
\<close>

theorem fastFail_survives_push:
  "map_option (\<lambda>s. (lastPushedHead (hook s), closedChs s, worker s,
                     fastFailReplicationWait (hook s), fst (Execute (Inr H2) 30 s)))
     (run breakerTrace (started hookP))
     = Some (H1, [0], Waiting, True, (Some (WaitFastFail (circuitBreakerError hookP)), None))"
  by (simp add: breakerTrace_def op_defs example_defs)

subsection \<open>DropDatabase\<close>

text \<open>
  C10, against the modelled \<open>SplitRevisionDbName\<close>: for every name \<open>base/rev\<close> whose
  part \<open>rev\<close> after the delimiter is not empty, \<open>DropDatabase\<close> returns the error
  ``unable to drop revision database'' with the name, before it takes the provider
  lock, and leaves the provider (its maps, its file system, its lock) as it was.
\<close>

theorem DropDatabase_revision:
  assumes "revision \<noteq> []"
  shows "DropDatabase unicodeLower env (base @ DbRevisionDelimiter @ revision) p =
           (DropError (''unable to drop revision database: '' @ base @ DbRevisionDelimiter @ revision), p)"
proof -
  from splitFirst_revision [OF assms, of base]
  obtain b r where "splitFirst ''/'' (base @ ''/'' @ revision) = Some (b, r)" "r \<noteq> []"
    by blast
  then show ?thesis
    by (simp add: DropDatabase_def SplitRevisionDbName_def DbRevisionDelimiter_def)
qed

theorem DropDatabase_revision_witness:
  "''main'' \<noteq> [] \<and>
   DropDatabase noUnicode envOK ''db/main'' providerA =
     (DropError ''unable to drop revision database: db/main'', providerA)"
  using DropDatabase_revision [of "''main''" noUnicode envOK "''db''" providerA]
  by (simp add: DbRevisionDelimiter_def)

text \<open>
  C10 as stated fails for a name that ends with the delimiter: its revision is empty,
  the guard lets it through, the lock is taken, and the type assertion on the missing
  map entry panics.
\<close>

theorem DropDatabase_empty_revision_counterexample:
  "fst (DropDatabase noUnicode envOK ''db/'' providerA) = DropPanic
   \<and> muLocks (snd (DropDatabase noUnicode envOK ''db/'' providerA)) = 1"
  by (simp add: DropDatabase_def SplitRevisionDbName_def DbRevisionDelimiter_def
      formatDbMapKeyName_def ToLower_def lowerChar_def providerA_def Let_def)

end
